theory Spec2Isabelle
  imports Complex_Main
begin

section \<open>Schema nodes and values\<close>

text \<open>
  The repository consists of TypeScript type aliases over Zod schema types
  (\<^verbatim>\<open>crud-zod-type-utils\<close>), one runtime function over schemas
  (\<^verbatim>\<open>getFilterSchema\<close>) and one router factory (\<^verbatim>\<open>createCrudRouter\<close>).
  A type alias is a function from types to types; it is embedded as a HOL function
  on a datatype of schema types. One datatype serves the type level and the runtime
  level: a schema value built by \<^verbatim>\<open>z.string()\<close>, \<^verbatim>\<open>z.object({...})\<close>, ... has
  the schema type of the same shape.

  The constructors are the Zod classes the source imports. A shape is the list of the
  fields of an object schema in declaration order; the keys of a shape are distinct in
  every schema that TypeScript or JavaScript can build. A key of a shape is a string
  key (\<^verbatim>\<open>{a: ...}\<close>, \<^verbatim>\<open>{"a": ...}\<close>), whose type in \<^verbatim>\<open>keyof\<close> is a string
  literal type, or a numeric-literal key (\<^verbatim>\<open>{1: ...}\<close>, a natural number here), whose
  type in \<^verbatim>\<open>keyof\<close> is a number literal type. \<open>ZType\<close> stands for a schema
  known only by its static type \<^verbatim>\<open>ZodType<Output>\<close>: \<open>ZType OutAny\<close> is
  \<^verbatim>\<open>z.ZodTypeAny\<close>, \<open>ZType OutDateTime\<close> a schema whose inferred type is luxon's
  \<^verbatim>\<open>DateTime\<close>.
\<close>

datatype literal = LitString string | LitNumber real | LitBoolean bool | LitNull | LitUndefined

datatype config = Strip | Strict | Loose

datatype key = KStr string | KNum nat

datatype tsout = OutDateTime | OutAny | OutOther

datatype zod =
    ZString
  | ZNumber
  | ZBoolean
  | ZDate
  | ZLiteral "literal list"
  | ZEnum "string list"
  | ZNever
  | ZArray zod
  | ZOptional zod
  | ZNullable zod
  | ZRecord zod zod
  | ZUnion "zod list"
  | ZObject "(key \<times> zod) list" config
  | ZType tsout

type_synonym shape = "(key \<times> zod) list"

text \<open>JavaScript values, as far as validation looks at them. A date is its epoch time.\<close>

datatype jsval =
    VUndefined
  | VNull
  | VBoolean bool
  | VNumber real
  | VString string
  | VDate int
  | VArray "jsval list"
  | VObject "(string \<times> jsval) list"

fun isZodObject :: "zod \<Rightarrow> bool" where
  "isZodObject (ZObject Shape cfg) = True"
| "isZodObject T = False"

definition keyof :: "('k \<times> 'a) list \<Rightarrow> 'k list" where
  "keyof S = map fst S"

section \<open>The relational-operator schemas\<close>

text \<open>\<^verbatim>\<open>z.object\<close> builds an object schema with the default configuration, \<open>Strip\<close>.\<close>

definition LHSDateSchema :: zod where
  "LHSDateSchema = ZObject
     [(KStr ''in'', ZOptional (ZArray ZDate)),
      (KStr ''notIn'', ZOptional (ZArray ZDate)),
      (KStr ''gt'', ZOptional ZDate),
      (KStr ''gte'', ZOptional ZDate),
      (KStr ''lt'', ZOptional ZDate),
      (KStr ''lte'', ZOptional ZDate)] Strip"

definition LHSStringSchema :: zod where
  "LHSStringSchema = ZObject
     [(KStr ''in'', ZOptional (ZArray ZString)),
      (KStr ''notIn'', ZOptional (ZArray ZString)),
      (KStr ''contains'', ZOptional ZString),
      (KStr ''startsWith'', ZOptional ZString),
      (KStr ''endsWith'', ZOptional ZString)] Strip"

definition LHSNumberSchema :: zod where
  "LHSNumberSchema = ZObject
     [(KStr ''in'', ZOptional (ZArray ZNumber)),
      (KStr ''notIn'', ZOptional (ZArray ZNumber)),
      (KStr ''gt'', ZOptional ZNumber),
      (KStr ''gte'', ZOptional ZNumber),
      (KStr ''lt'', ZOptional ZNumber),
      (KStr ''lte'', ZOptional ZNumber)] Strip"

section \<open>Query types\<close>

text \<open>
  \<^verbatim>\<open>UnwrapZodType<T>\<close> removes \<^verbatim>\<open>ZodOptional\<close> and \<^verbatim>\<open>ZodNullable\<close> wrappers.
\<close>

fun UnwrapZodType :: "zod \<Rightarrow> zod" where
  "UnwrapZodType (ZOptional U) = UnwrapZodType U"
| "UnwrapZodType (ZNullable U) = UnwrapZodType U"
| "UnwrapZodType T = T"

text \<open>
  \<open>infers_DateTime T\<close> is the test \<^verbatim>\<open>z.infer<T> extends DateTime<boolean>\<close>. The
  checked type is not a bare type parameter, so the conditional does not distribute:
  a union passes when all its members do, and \<^verbatim>\<open>never\<close> (the inferred type of
  \<^verbatim>\<open>ZodNever\<close>, of an empty union, enum or literal) passes. No string, number,
  boolean, JavaScript \<^verbatim>\<open>Date\<close>, array, record or object type built from the schema
  kinds above is a \<^verbatim>\<open>DateTime\<close>. For \<open>ZType OutAny\<close> the inferred type is
  \<^verbatim>\<open>any\<close>, on which TypeScript evaluates the conditional to the union of both
  branches; that union is not a schema node, and the embedding takes the second branch.
\<close>

fun infers_DateTime :: "zod \<Rightarrow> bool" where
  "infers_DateTime (ZType out) = (out = OutDateTime)"
| "infers_DateTime ZNever = True"
| "infers_DateTime (ZEnum vs) = (vs = [])"
| "infers_DateTime (ZLiteral vs) = (vs = [])"
| "infers_DateTime (ZUnion Options) = list_all infers_DateTime Options"
| "infers_DateTime T = False"

definition QueryTypes :: "zod \<Rightarrow> zod" where
  "QueryTypes T =
     (if infers_DateTime T then ZUnion [ZDate, ZArray ZDate, LHSDateSchema]
      else case T of
          ZString \<Rightarrow> ZUnion [ZString, ZArray ZString, LHSStringSchema]
        | ZNumber \<Rightarrow> ZUnion [ZNumber, ZArray ZNumber, LHSNumberSchema]
        | ZBoolean \<Rightarrow> T
        | _ \<Rightarrow> ZUnion [T, ZArray T])"

text \<open>The runtime counterpart, a chain of \<^verbatim>\<open>instanceof\<close> tests.\<close>

definition getFilterSchema :: "zod \<Rightarrow> zod" where
  "getFilterSchema ty =
     (case ty of
          ZString \<Rightarrow> ZUnion [ty, ZArray ty, LHSStringSchema]
        | ZNumber \<Rightarrow> ZUnion [ty, ZArray ty, LHSNumberSchema]
        | ZDate \<Rightarrow> ZUnion [ty, ZArray ty, LHSDateSchema]
        | _ \<Rightarrow> ZUnion [ty, ZArray ty])"

section \<open>The flattener\<close>

text \<open>
  The depth argument of the flattener is a type: a numeric literal type or
  \<^verbatim>\<open>number\<close>. \<^verbatim>\<open>Increment<N>\<close> is \<^verbatim>\<open>[...Array<N>, 0]["length"]\<close>. \<^verbatim>\<open>Array<N>\<close>
  is the array type \<^verbatim>\<open>N[]\<close>, not a tuple of \<^verbatim>\<open>N\<close> elements, so the tuple is the
  open-ended \<^verbatim>\<open>[...N[], 0]\<close>, and the length of a tuple type with a rest element is
  \<^verbatim>\<open>number\<close>, whatever \<^verbatim>\<open>N\<close> is. \<^verbatim>\<open>Depth extends 1\<close> holds of the literal type
  \<^verbatim>\<open>1\<close> only, so the depth guard applies to a call that is given the depth
  \<^verbatim>\<open>1\<close> and to no call that the flattener makes itself. The type checker's own
  limit on the depth of instantiation is not modelled.
\<close>

datatype depth = DLit nat | DNumber

definition Increment :: "depth \<Rightarrow> depth" where
  "Increment N = DNumber"

definition extends_1 :: "depth \<Rightarrow> bool" where
  "extends_1 Depth = (Depth = DLit 1)"

text \<open>
  A flattened type is an intersection of one-property object types
  \<^verbatim>\<open>{ [K in Path]: V }\<close>, written as the list of its (path, schema) pairs; a path that
  occurs twice stands for a property whose type is the intersection of the two schema
  types. \<open>None\<close> is the type \<^verbatim>\<open>never\<close>.

  \<^verbatim>\<open>UnionToIntersection<U>\<close> intersects the members of the union \<open>U\<close>. A member
  \<^verbatim>\<open>never\<close> vanishes from a union, and on the empty union the helper evaluates to
  \<^verbatim>\<open>Prettify<unknown>\<close>, the empty object type.
\<close>

type_synonym flat = "(string \<times> zod) list"

definition UnionToIntersection :: "flat option list \<Rightarrow> flat" where
  "UnionToIntersection U = concat (map (\<lambda>u. case u of None \<Rightarrow> [] | Some m \<Rightarrow> m) U)"

text \<open>
  \<open>flatten_shape\<close> is the mapped type over \<^verbatim>\<open>keyof T["shape"] & string\<close>, indexed
  by \<^verbatim>\<open>keyof Shape & string\<close>: the union of the results of the fields that have a
  string key. A field under a numeric-literal key is not in the mapped type.
  \<open>flatten_options\<close> is the distribution of
  \<^verbatim>\<open>FlattenUnionObjects\<close> over the union \<^verbatim>\<open>Options[number]\<close>. The test
  \<^verbatim>\<open>Options[number] extends ZodObject<any>\<close> does not distribute: it asks that every
  member is an object schema, and holds of the empty union.
\<close>

function FlattenZodObjectWithTypes :: "zod \<Rightarrow> string \<Rightarrow> depth \<Rightarrow> flat option"
  and flatten_shape :: "shape \<Rightarrow> string \<Rightarrow> depth \<Rightarrow> flat option list"
  and FlattenZodFieldWithTypes :: "zod \<Rightarrow> string \<Rightarrow> depth \<Rightarrow> flat option"
  and FlattenUnionObjects :: "zod \<Rightarrow> string \<Rightarrow> depth \<Rightarrow> flat option"
  and flatten_options :: "zod list \<Rightarrow> string \<Rightarrow> depth \<Rightarrow> flat option list"
where
  "FlattenZodObjectWithTypes T Path Depth =
     (if extends_1 Depth then Some [(Path, ZType OutAny)]
      else case T of
          ZObject Shape cfg \<Rightarrow>
            Some (UnionToIntersection (flatten_shape Shape Path (Increment Depth)))
        | _ \<Rightarrow> None)"
| "flatten_shape [] Path Depth = []"
| "flatten_shape ((KStr K, F) # Shape) Path Depth =
     FlattenZodFieldWithTypes F (Path @ K) Depth # flatten_shape Shape Path Depth"
| "flatten_shape ((KNum n, F) # Shape) Path Depth = flatten_shape Shape Path Depth"
| "FlattenZodFieldWithTypes T Path Depth =
     (if extends_1 Depth then Some [(Path, QueryTypes T)]
      else case T of
          ZOptional Inner \<Rightarrow> FlattenZodFieldWithTypes Inner Path Depth
        | ZNullable Inner \<Rightarrow> FlattenZodFieldWithTypes Inner Path Depth
        | ZObject Shape cfg \<Rightarrow> FlattenZodObjectWithTypes T (Path @ ''_'') Depth
        | ZUnion Options \<Rightarrow>
            if list_all isZodObject Options
            then Some (UnionToIntersection
                   (flatten_options Options (Path @ ''_'') (Increment Depth)))
            else Some [(Path, QueryTypes T)]
        | _ \<Rightarrow> Some [(Path, QueryTypes T)])"
| "FlattenUnionObjects T Path Depth =
     (case T of
          ZObject Shape cfg \<Rightarrow> FlattenZodObjectWithTypes T Path Depth
        | _ \<Rightarrow> Some [(Path, T)])"
| "flatten_options [] Path Depth = []"
| "flatten_options (T # Options) Path Depth =
     FlattenUnionObjects T Path Depth # flatten_options Options Path Depth"
  by pat_completeness auto

termination
  by (relation "measure (\<lambda>x. case x of
      Inl (Inl (T, _, _)) \<Rightarrow> 2 * size T
    | Inl (Inr (Shape, _, _)) \<Rightarrow> 2 * size_list (size_prod (\<lambda>_. 0) size) Shape
    | Inr (Inl (T, _, _)) \<Rightarrow> 2 * size T + 1
    | Inr (Inr (Inl (T, _, _))) \<Rightarrow> 2 * size T + 1
    | Inr (Inr (Inr (Options, _, _))) \<Rightarrow> 2 * size_list size Options + 2)")
    simp_all

text \<open>
  \<^verbatim>\<open>MergeFlattened<T>\<close> calls the flattener with its default arguments, the empty
  path and depth \<^verbatim>\<open>0\<close>. \<^verbatim>\<open>ZodShape\<close> keeps every property whose type is a schema
  type (both of its branches return the property unchanged); the paths of a flattened
  type are string keys.
  \<^verbatim>\<open>NestedZodKeysWithTypes<T>\<close> makes an object schema of the flattened shape, with
  the configuration of \<open>T\<close>; its parameter is constrained to object schemas, and \<open>None\<close>
  is an argument that the constraint rejects.
\<close>

definition MergeFlattened :: "zod \<Rightarrow> flat" where
  "MergeFlattened T = UnionToIntersection [FlattenZodObjectWithTypes T [] (DLit 0)]"

definition ZodShape :: "flat \<Rightarrow> shape" where
  "ZodShape M = map (\<lambda>(K, T). (KStr K, if isZodObject T then T else T)) M"

definition NestedZodKeysWithTypes :: "zod \<Rightarrow> zod option" where
  "NestedZodKeysWithTypes T =
     (case T of
          ZObject Shape cfg \<Rightarrow> Some (ZObject (ZodShape (MergeFlattened T)) cfg)
        | _ \<Rightarrow> None)"

section \<open>Populate fields\<close>

text \<open>
  \<^verbatim>\<open>QueryPopulateFieldFilter<T>\<close> maps every key \<open>K\<close> of the shape to \<open>K\<close> or to
  \<^verbatim>\<open>never\<close> (\<open>None\<close>). In the object branch \<open>S\<close> is the shape, and
  \<^verbatim>\<open>S extends { id: ZodType }\<close> asks for a key \<^verbatim>\<open>id\<close>.

  In the union branch \<^verbatim>\<open>U[number] extends ZodObject<infer SUnion ...>\<close> does not
  distribute over the members: all of them have to be object schemas. Each member gives
  a candidate for \<open>SUnion\<close>, its shape, and TypeScript infers the union of the
  candidates, reduced by subtypes: a candidate that is a strict subtype of another
  remaining one is dropped, scanning from the last. The subtype relation between shape
  types depends on Zod's type declarations and is a parameter. The inner test
  \<^verbatim>\<open>SUnion extends { id: ZodType }\<close> has a bare inferred type parameter as its
  checked type, so it distributes over the members of \<open>SUnion\<close>: the result is the
  union of the members' results, which is \<open>K\<close> as soon as one member has the key
  \<^verbatim>\<open>id\<close>. With no candidate (the empty union) \<open>SUnion\<close> is its constraint
  \<^verbatim>\<open>Record<string, ZodType>\<close>, which has no property \<^verbatim>\<open>id\<close>.
\<close>

definition has_id :: "shape \<Rightarrow> bool" where
  "has_id S = (KStr ''id'' \<in> set (keyof S))"

fun shapes_of :: "zod list \<Rightarrow> shape list" where
  "shapes_of [] = []"
| "shapes_of (ZObject S cfg # U) = S # shapes_of U"
| "shapes_of (T # U) = shapes_of U"

fun removeSubtypes_scan :: "(shape \<Rightarrow> shape \<Rightarrow> bool) \<Rightarrow> shape list \<Rightarrow> shape list \<Rightarrow> shape list" where
  "removeSubtypes_scan subtype [] kept = kept"
| "removeSubtypes_scan subtype (S # earlier) kept =
     (if list_ex (subtype S) (earlier @ kept)
      then removeSubtypes_scan subtype earlier kept
      else removeSubtypes_scan subtype earlier (S # kept))"

definition removeSubtypes :: "(shape \<Rightarrow> shape \<Rightarrow> bool) \<Rightarrow> shape list \<Rightarrow> shape list" where
  "removeSubtypes subtype types = removeSubtypes_scan subtype (rev types) []"

definition infer_SUnion :: "(shape \<Rightarrow> shape \<Rightarrow> bool) \<Rightarrow> zod list \<Rightarrow> shape list" where
  "infer_SUnion subtype U = removeSubtypes subtype (remdups (shapes_of U))"

definition QueryPopulateFieldFilter ::
  "(shape \<Rightarrow> shape \<Rightarrow> bool) \<Rightarrow> zod \<Rightarrow> (key \<times> key option) list option" where
  "QueryPopulateFieldFilter subtype T =
     (case T of
          ZObject Shape cfg \<Rightarrow>
            Some (map (\<lambda>(K, F). (K,
              case UnwrapZodType F of
                  ZObject S cfg' \<Rightarrow> if has_id S then Some K else None
                | ZUnion U \<Rightarrow>
                    if list_all isZodObject U
                    then (if list_ex has_id (infer_SUnion subtype U) then Some K else None)
                    else None
                | _ \<Rightarrow> None)) Shape)
        | _ \<Rightarrow> None)"

text \<open>
  \<^verbatim>\<open>NonNeverKeys\<close> keeps the keys whose property is not \<^verbatim>\<open>never\<close> and maps each to
  itself; \<^verbatim>\<open>QueryPopulateFields<T>\<close> is the array schema of the literal schema of
  the remaining keys, a string key as a string literal and a numeric-literal key as a
  number literal.
\<close>

fun key_literal :: "key \<Rightarrow> literal" where
  "key_literal (KStr s) = LitString s"
| "key_literal (KNum n) = LitNumber (real n)"

definition NonNeverKeys :: "(key \<times> 'a option) list \<Rightarrow> (key \<times> key) list" where
  "NonNeverKeys M = map (\<lambda>(K, V). (K, K)) (filter (\<lambda>(K, V). V \<noteq> None) M)"

definition QueryPopulateFields :: "(shape \<Rightarrow> shape \<Rightarrow> bool) \<Rightarrow> zod \<Rightarrow> zod option" where
  "QueryPopulateFields subtype T =
     (case QueryPopulateFieldFilter subtype T of
          Some M \<Rightarrow> Some (ZArray (ZLiteral (map key_literal (keyof (NonNeverKeys M)))))
        | None \<Rightarrow> None)"

section \<open>Picking keys and combining object schemas\<close>

definition PickZodObjectKeys :: "zod \<Rightarrow> key list \<Rightarrow> bool \<Rightarrow> zod option" where
  "PickZodObjectKeys T K Optional =
     (case T of
          ZObject Shape cfg \<Rightarrow>
            Some (ZObject
              (map (\<lambda>(P, F). (P, if Optional then ZOptional F else F))
                 (filter (\<lambda>(P, F). P \<in> set K) Shape)) cfg)
        | _ \<Rightarrow> None)"

text \<open>
  Modelled from the spec: \<^verbatim>\<open>util.Extend<A, B>\<close> is a type of the Zod library, which
  is not part of the repository. The spec describes the merge as left to right, later
  keys overwriting earlier ones: the properties of \<open>A\<close> whose key \<open>B\<close> does not have,
  then the properties of \<open>B\<close>.
\<close>

definition Extend :: "shape \<Rightarrow> shape \<Rightarrow> shape" where
  "Extend A B = filter (\<lambda>(K, F). K \<notin> set (keyof B)) A @ B"

definition CombineZodObjects :: "zod \<Rightarrow> zod \<Rightarrow> zod option" where
  "CombineZodObjects A B =
     (case A of
          ZObject SA ca \<Rightarrow>
            (case B of
                 ZObject SB cb \<Rightarrow> Some (ZObject (Extend SA SB) cb)
               | _ \<Rightarrow> None)
        | _ \<Rightarrow> None)"

section \<open>Validation\<close>

text \<open>
  What a schema accepts is decided by the parser of the Zod library, which the
  repository uses and does not contain. \<open>accepts\<close> follows the rules that the
  library documents for the schema kinds above: a
  union accepts what one of its options accepts; an object schema accepts an object
  (not an array) each of whose declared fields accepts the property's value, a missing
  property counting as \<^verbatim>\<open>undefined\<close>, and the property of a numeric-literal key being
  named by the decimal digits of the number; keys that the shape does not declare are
  dropped from the result by the default configuration \<open>Strip\<close>, kept by \<open>Loose\<close>, and
  rejected only by \<open>Strict\<close>. What a schema known by its static type alone accepts is
  the parameter \<open>c\<close>.
\<close>

definition get :: "(string \<times> jsval) list \<Rightarrow> string \<Rightarrow> jsval" where
  "get fields K = (case map_of fields K of None \<Rightarrow> VUndefined | Some x \<Rightarrow> x)"

definition digit :: "nat \<Rightarrow> char" where
  "digit d = char_of (48 + d)"

fun decimal :: "nat \<Rightarrow> string" where
  "decimal n = (if n < 10 then [digit n] else decimal (n div 10) @ [digit (n mod 10)])"

declare decimal.simps [simp del]

fun key_name :: "key \<Rightarrow> string" where
  "key_name (KStr s) = s"
| "key_name (KNum n) = decimal n"

fun lit_val :: "literal \<Rightarrow> jsval" where
  "lit_val (LitString s) = VString s"
| "lit_val (LitNumber n) = VNumber n"
| "lit_val (LitBoolean b) = VBoolean b"
| "lit_val LitNull = VNull"
| "lit_val LitUndefined = VUndefined"

fun accepts :: "(tsout \<Rightarrow> jsval \<Rightarrow> bool) \<Rightarrow> zod \<Rightarrow> jsval \<Rightarrow> bool" where
  "accepts c ZString v = (case v of VString s \<Rightarrow> True | _ \<Rightarrow> False)"
| "accepts c ZNumber v = (case v of VNumber n \<Rightarrow> True | _ \<Rightarrow> False)"
| "accepts c ZBoolean v = (case v of VBoolean b \<Rightarrow> True | _ \<Rightarrow> False)"
| "accepts c ZDate v = (case v of VDate d \<Rightarrow> True | _ \<Rightarrow> False)"
| "accepts c (ZLiteral ls) v = (v \<in> set (map lit_val ls))"
| "accepts c (ZEnum vs) v = (case v of VString s \<Rightarrow> s \<in> set vs | _ \<Rightarrow> False)"
| "accepts c ZNever v = False"
| "accepts c (ZArray T) v = (case v of VArray xs \<Rightarrow> list_all (accepts c T) xs | _ \<Rightarrow> False)"
| "accepts c (ZOptional T) v = (v = VUndefined \<or> accepts c T v)"
| "accepts c (ZNullable T) v = (v = VNull \<or> accepts c T v)"
| "accepts c (ZRecord KT VT) v =
     (case v of
          VObject fields \<Rightarrow>
            list_all (\<lambda>(k, x). accepts c KT (VString k) \<and> accepts c VT x) fields
        | _ \<Rightarrow> False)"
| "accepts c (ZUnion Options) v = list_ex (\<lambda>T. accepts c T v) Options"
| "accepts c (ZObject Shape cfg) v =
     (case v of
          VObject fields \<Rightarrow>
            list_all (\<lambda>(K, T). accepts c T (get fields (key_name K))) Shape \<and>
            (case cfg of
                 Strict \<Rightarrow> list_all (\<lambda>(k, x). k \<in> set (map key_name (keyof Shape))) fields
               | _ \<Rightarrow> True)
        | _ \<Rightarrow> False)"
| "accepts c (ZType out) v = c out v"

section \<open>The CRUD router\<close>

text \<open>
  \<^verbatim>\<open>createCrudRouter\<close> takes one object of named parameters; an optional parameter
  that is omitted (or \<^verbatim>\<open>undefined\<close>) is \<open>None\<close>. Objects used as dictionaries are
  maps, and the spread \<^verbatim>\<open>{ ...a, ...b }\<close> is \<open>a ++ b\<close>: the keys of \<open>b\<close> overwrite
  those of \<open>a\<close>. The contract builder \<^verbatim>\<open>c.router\<close> belongs to ts-rest; the result is
  kept as the pair of arguments it is called with. \<^verbatim>\<open>c.type<TType>()\<close> is the marker
  \<open>CTType\<close>.
\<close>

datatype contract = CTType

record route =
  "method" :: string
  path :: string
  summary :: string
  responses :: "(nat \<times> contract) list"

record params =
  name :: string
  entity :: zod
  create :: zod
  update :: zod
  filterBy :: "string list option"
  routes :: "(string \<rightharpoonup> route) option"
  authentication :: "bool option"
  metadata :: "(string \<rightharpoonup> jsval) option"

datatype router = Router (router_routes: "string \<rightharpoonup> route") (router_metadata: "string \<rightharpoonup> jsval")

definition createCrudRouter :: "params \<Rightarrow> router" where
  "createCrudRouter p =
     (let authentication' = (case authentication p of None \<Rightarrow> True | Some a \<Rightarrow> a);
          metadata' = (case metadata p of None \<Rightarrow> Map.empty | Some m \<Rightarrow> m);
          baseRoutes = [''get'' \<mapsto>
            \<lparr>method = ''GET'',
             path = ''/'' @ name p @ ''/:id'',
             summary = ''Get '' @ name p @ '' by id'',
             responses = [(200, CTType)]\<rparr>];
          mergedRoutes = baseRoutes ++ (case routes p of None \<Rightarrow> Map.empty | Some r \<Rightarrow> r)
      in Router mergedRoutes ([''authentication'' \<mapsto> VBoolean authentication'] ++ metadata'))"

section \<open>Notions used by the properties\<close>

text \<open>
  A field is flattened as nested objects when, with its \<^verbatim>\<open>ZodOptional\<close> and
  \<^verbatim>\<open>ZodNullable\<close> wrappers removed, it is an object schema or a union all of whose
  members are object schemas: these are the two branches of
  \<^verbatim>\<open>FlattenZodFieldWithTypes\<close> that recurse.
\<close>

definition nested_objects :: "zod \<Rightarrow> bool" where
  "nested_objects T =
     (case UnwrapZodType T of
          ZObject Shape cfg \<Rightarrow> True
        | ZUnion Options \<Rightarrow> list_all isZodObject Options
        | _ \<Rightarrow> False)"

text \<open>The fields of a shape that have a string key, with the key as a string.\<close>

fun string_fields :: "shape \<Rightarrow> (string \<times> zod) list" where
  "string_fields [] = []"
| "string_fields ((KStr K, F) # Shape) = (K, F) # string_fields Shape"
| "string_fields ((KNum n, F) # Shape) = string_fields Shape"


text \<open>
  The relational operators in the spec's words: the operator keys of a leaf kind, and
  what a value under an operator key has to be. Every operator is optional; \<^verbatim>\<open>in\<close>
  and \<^verbatim>\<open>notIn\<close> take an array of values of the kind, the others one value.
\<close>

definition operator_keys :: "zod \<Rightarrow> string list" where
  "operator_keys T =
     (case T of
          ZString \<Rightarrow> [''in'', ''notIn'', ''contains'', ''startsWith'', ''endsWith'']
        | _ \<Rightarrow> [''in'', ''notIn'', ''gt'', ''gte'', ''lt'', ''lte''])"

definition operator_value :: "(tsout \<Rightarrow> jsval \<Rightarrow> bool) \<Rightarrow> zod \<Rightarrow> string \<Rightarrow> jsval \<Rightarrow> bool" where
  "operator_value c T K x =
     (x = VUndefined \<or>
      (if K = ''in'' \<or> K = ''notIn'' then accepts c (ZArray T) x else accepts c T x))"

text \<open>
  Instances of the two parameters, for concrete evaluation: schemas known by their
  static type only accept nothing, and a shape is a strict subtype of another when it
  has every property of the other, with the same schema type, and not conversely.
\<close>

definition opaque_rejects :: "tsout \<Rightarrow> jsval \<Rightarrow> bool" where
  "opaque_rejects out v = False"

definition width_subtype :: "shape \<Rightarrow> shape \<Rightarrow> bool" where
  "width_subtype S S' =
     (list_all (\<lambda>(K, F). map_of S K = Some F) S' \<and>
      \<not> list_all (\<lambda>(K, F). map_of S' K = Some F) S)"

section \<open>Properties of the flattener\<close>

lemma not_extends_1 [simp]:
  "\<not> extends_1 DNumber" "\<not> extends_1 (DLit 0)" "extends_1 (Increment Depth) = False"
  by (simp_all add: extends_1_def Increment_def)

text \<open>
  Claim C1. For the schema \<^verbatim>\<open>{a: string, b: {c: number}}\<close> the flattener yields the
  map with exactly the two keys \<^verbatim>\<open>a\<close> and \<^verbatim>\<open>b_c\<close>, the first with the query type
  of a string and the second with the query type of a number, and
  \<^verbatim>\<open>NestedZodKeysWithTypes\<close> yields the object schema of that shape.
\<close>

theorem flatten_nested_example:
  "MergeFlattened (ZObject [(KStr ''a'', ZString), (KStr ''b'', ZObject [(KStr ''c'', ZNumber)] Strip)] Strip) =
     [(''a'', ZUnion [ZString, ZArray ZString, LHSStringSchema]),
      (''b_c'', ZUnion [ZNumber, ZArray ZNumber, LHSNumberSchema])] \<and>
   NestedZodKeysWithTypes
       (ZObject [(KStr ''a'', ZString), (KStr ''b'', ZObject [(KStr ''c'', ZNumber)] Strip)] Strip) =
     Some (ZObject
       [(KStr ''a'', ZUnion [ZString, ZArray ZString, LHSStringSchema]),
        (KStr ''b_c'', ZUnion [ZNumber, ZArray ZNumber, LHSNumberSchema])] Strip)"
  by (simp add: MergeFlattened_def NestedZodKeysWithTypes_def ZodShape_def
      UnionToIntersection_def QueryTypes_def)

text \<open>
  A field that is not flattened as nested objects is a leaf: it contributes its path
  with the query type of the unwrapped field.
\<close>

lemma field_leaf:
  "\<not> nested_objects F \<Longrightarrow> \<not> extends_1 Depth \<Longrightarrow>
   FlattenZodFieldWithTypes F Path Depth = Some [(Path, QueryTypes (UnwrapZodType F))]"
proof (induction F arbitrary: Path)
  case (ZOptional F)
  then show ?case by (simp add: nested_objects_def)
next
  case (ZNullable F)
  then show ?case by (simp add: nested_objects_def)
qed (simp_all add: nested_objects_def)

lemma shape_leaves:
  "\<forall>(K, F) \<in> set Shape. \<not> nested_objects F \<Longrightarrow> \<not> extends_1 Depth \<Longrightarrow>
   UnionToIntersection (flatten_shape Shape Path Depth) =
     map (\<lambda>(K, F). (Path @ K, QueryTypes (UnwrapZodType F))) (string_fields Shape)"
proof (induction Shape)
  case Nil
  then show ?case by (simp add: UnionToIntersection_def)
next
  case (Cons KF Shape)
  obtain K F where KF: "KF = (K, F)" by (cases KF)
  have rest: "UnionToIntersection (flatten_shape Shape Path Depth) =
      map (\<lambda>(K, F). (Path @ K, QueryTypes (UnwrapZodType F))) (string_fields Shape)"
    using Cons by simp
  have leaf: "\<not> nested_objects F" using Cons.prems KF by simp
  show ?case
  proof (cases K)
    case (KStr k)
    then show ?thesis
      using rest field_leaf [OF leaf Cons.prems(2), of "Path @ k"] KF
      by (simp add: UnionToIntersection_def del: FlattenZodFieldWithTypes.simps)
  next
    case (KNum n)
    then show ?thesis using rest KF by simp
  qed
qed

lemma merge_leaves:
  "\<forall>(K, F) \<in> set Shape. \<not> nested_objects F \<Longrightarrow>
   MergeFlattened (ZObject Shape cfg) =
     map (\<lambda>(K, F). (K, QueryTypes (UnwrapZodType F))) (string_fields Shape)"
  using shape_leaves [of Shape DNumber "[]"]
  by (simp add: MergeFlattened_def UnionToIntersection_def Increment_def)

lemma string_fields_keys: "set (keyof (string_fields Shape)) = {K. KStr K \<in> set (keyof Shape)}"
proof (induction Shape)
  case Nil
  then show ?case by (simp add: keyof_def)
next
  case (Cons KF Shape)
  obtain K F where KF: "KF = (K, F)" by (cases KF)
  show ?case using Cons KF by (cases K) (auto simp: keyof_def)
qed

lemma string_fields_subset: "(K, F) \<in> set (string_fields Shape) \<Longrightarrow> (KStr K, F) \<in> set Shape"
proof (induction Shape)
  case Nil
  then show ?case by simp
next
  case (Cons KF Shape)
  obtain K' F' where KF: "KF = (K', F')" by (cases KF)
  show ?case using Cons KF by (cases K') auto
qed


text \<open>
  Claim C5, amended. For every object schema none of whose top-level fields is, after
  unwrapping Optional and Nullable, an Object or a Union whose members are all Objects,
  the key set of the flattened map is the set of the top-level field names that are
  string keys, none renamed or prefixed; a field under a numeric-literal key is left
  out of the map.
\<close>

theorem flatten_leaf_keys:
  assumes "\<forall>(K, F) \<in> set Shape. \<not> nested_objects F"
  shows "set (keyof (MergeFlattened (ZObject Shape cfg))) = {K. KStr K \<in> set (keyof Shape)}"
proof -
  have "keyof (MergeFlattened (ZObject Shape cfg)) = keyof (string_fields Shape)"
    using merge_leaves [OF assms] by (simp add: keyof_def case_prod_unfold comp_def)
  then show ?thesis by (simp add: string_fields_keys)
qed

theorem flatten_leaf_keys_witness:
  "list_all (\<lambda>(K, F). \<not> nested_objects F)
     [(KStr ''a'', ZOptional ZString), (KNum 1, ZBoolean), (KStr ''b'', ZBoolean),
      (KStr ''c'', ZUnion [ZNumber, ZObject [] Strip])] \<and>
   set (keyof (MergeFlattened (ZObject
     [(KStr ''a'', ZOptional ZString), (KNum 1, ZBoolean), (KStr ''b'', ZBoolean),
      (KStr ''c'', ZUnion [ZNumber, ZObject [] Strip])] Strict))) = {''a'', ''b'', ''c''}"
proof -
  have "{K. KStr K \<in> set (keyof
      [(KStr ''a'', ZOptional ZString), (KNum 1, ZBoolean), (KStr ''b'', ZBoolean),
       (KStr ''c'', ZUnion [ZNumber, ZObject [] Strip])])} = {''a'', ''b'', ''c''}"
    by (auto simp: keyof_def)
  then show ?thesis
    using flatten_leaf_keys [of
      "[(KStr ''a'', ZOptional ZString), (KNum 1, ZBoolean), (KStr ''b'', ZBoolean),
        (KStr ''c'', ZUnion [ZNumber, ZObject [] Strip])]" Strict]
    by (simp add: nested_objects_def)
qed

text \<open>
  Claim C5 as stated fails. A field that is an empty union contains no Object, and its
  key is missing from the flattened map; a Boolean field under the numeric-literal key
  \<^verbatim>\<open>1\<close> contains no Object either, and the flattened map has no key for it.
\<close>

theorem flatten_union_keys_differ:
  "set (keyof (MergeFlattened (ZObject [(KStr ''x'', ZUnion [])] Strip))) \<noteq>
     set (map key_name (keyof [(KStr ''x'', ZUnion [])])) \<and>
   set (keyof (MergeFlattened (ZObject [(KNum 1, ZBoolean)] Strip))) \<noteq>
     set (map key_name (keyof [(KNum 1, ZBoolean)]))"
  by (simp add: MergeFlattened_def UnionToIntersection_def keyof_def)

text \<open>
  Claim C6. Called on a root with its default depth, the flattener evaluates to
  \<^verbatim>\<open>never\<close> exactly when the root is not an object schema; on every object schema
  it yields a map. The flattener is a function of its arguments: it has no effect
  besides its result.
\<close>

theorem flatten_never_iff_not_object:
  "(FlattenZodObjectWithTypes T Path (DLit 0) = None) = (\<not> isZodObject T)"
  by (cases T) simp_all






section \<open>Properties of the query types\<close>

text \<open>The property name of a numeric-literal key, on an example.\<close>

lemma key_name_example: "key_name (KNum 12) = ''12''"
  by code_simp

text \<open>
  Claim C2. For a Boolean leaf the type-level \<^verbatim>\<open>QueryTypes\<close> returns the Boolean
  schema itself; the runtime \<^verbatim>\<open>getFilterSchema\<close> has no Boolean case and returns
  the union of the Boolean schema and its array.
\<close>

theorem boolean_query_types:
  "QueryTypes ZBoolean = ZBoolean \<and>
   getFilterSchema ZBoolean = ZUnion [ZBoolean, ZArray ZBoolean]"
  by (simp add: QueryTypes_def getFilterSchema_def)

lemma LHSStringSchema_accepts:
  "list_all (\<lambda>K. operator_value c ZString K (get props K)) (operator_keys ZString) \<Longrightarrow>
   accepts c LHSStringSchema (VObject props)"
  by (simp add: operator_keys_def operator_value_def LHSStringSchema_def)

lemma LHSNumberSchema_accepts:
  "list_all (\<lambda>K. operator_value c ZNumber K (get props K)) (operator_keys ZNumber) \<Longrightarrow>
   accepts c LHSNumberSchema (VObject props)"
  by (simp add: operator_keys_def operator_value_def LHSNumberSchema_def)

lemma LHSDateSchema_accepts:
  "list_all (\<lambda>K. operator_value c ZDate K (get props K)) (operator_keys ZDate) \<Longrightarrow>
   accepts c LHSDateSchema (VObject props)"
  by (simp add: operator_keys_def operator_value_def LHSDateSchema_def)

text \<open>
  Claim C3, amended. For a String, Number or Date leaf the schema returned by
  \<^verbatim>\<open>getFilterSchema\<close> accepts every value the leaf accepts, every array of such
  values, and every object in which each relational operator of the kind is absent,
  \<^verbatim>\<open>undefined\<close> or of the operator's type, whatever other keys the object has.
\<close>

theorem getFilterSchema_accepts:
  assumes "T = ZString \<or> T = ZNumber \<or> T = ZDate"
  shows "(accepts c T v \<longrightarrow> accepts c (getFilterSchema T) v) \<and>
         (list_all (accepts c T) vs \<longrightarrow> accepts c (getFilterSchema T) (VArray vs)) \<and>
         (list_all (\<lambda>K. operator_value c T K (get props K)) (operator_keys T) \<longrightarrow>
            accepts c (getFilterSchema T) (VObject props))"
  using assms LHSStringSchema_accepts [of c props] LHSNumberSchema_accepts [of c props]
    LHSDateSchema_accepts [of c props]
  by (auto simp: getFilterSchema_def)

theorem getFilterSchema_accepts_witness:
  "accepts opaque_rejects ZNumber (VNumber 3) \<and>
   accepts opaque_rejects (getFilterSchema ZNumber) (VNumber 3) \<and>
   list_all (accepts opaque_rejects ZNumber) [VNumber 1, VNumber 2] \<and>
   accepts opaque_rejects (getFilterSchema ZNumber) (VArray [VNumber 1, VNumber 2]) \<and>
   list_all (\<lambda>K. operator_value opaque_rejects ZNumber K
       (get [(''gt'', VNumber 1), (''in'', VArray [VNumber 5]), (''page'', VString ''x'')] K))
     (operator_keys ZNumber) \<and>
   accepts opaque_rejects (getFilterSchema ZNumber)
     (VObject [(''gt'', VNumber 1), (''in'', VArray [VNumber 5]), (''page'', VString ''x'')])"
  using getFilterSchema_accepts [of ZNumber opaque_rejects "VNumber 3" "[VNumber 1, VNumber 2]"
      "[(''gt'', VNumber 1), (''in'', VArray [VNumber 5]), (''page'', VString ''x'')]"]
  by (simp add: operator_keys_def operator_value_def get_def)

text \<open>
  Claim C3 as stated fails: the filter schema of a String leaf accepts an object whose
  only key, \<^verbatim>\<open>foo\<close>, is not a relational operator of strings.
\<close>

theorem getFilterSchema_accepts_unknown_key:
  "accepts opaque_rejects (getFilterSchema ZString) (VObject [(''foo'', VNumber 1)]) \<and>
   ''foo'' \<notin> set (operator_keys ZString)"
  by (simp add: getFilterSchema_def LHSStringSchema_def get_def operator_keys_def)

text \<open>
  Claim C9. For every schema \<open>T\<close>, \<^verbatim>\<open>getFilterSchema\<close> returns a union whose first
  member is \<open>T\<close> itself, and every value that \<open>T\<close> accepts is accepted by the returned
  schema.
\<close>

theorem getFilterSchema_keeps_bare:
  "(\<exists>rest. getFilterSchema T = ZUnion (T # rest)) \<and>
   (accepts c T v \<longrightarrow> accepts c (getFilterSchema T) v)"
  by (cases T) (simp_all add: getFilterSchema_def)

theorem getFilterSchema_keeps_bare_witness:
  "(\<exists>rest. getFilterSchema (ZEnum [''asc'', ''desc'']) = ZUnion (ZEnum [''asc'', ''desc''] # rest)) \<and>
   accepts opaque_rejects (ZEnum [''asc'', ''desc'']) (VString ''asc'') \<and>
   accepts opaque_rejects (getFilterSchema (ZEnum [''asc'', ''desc''])) (VString ''asc'')"
  using getFilterSchema_keeps_bare [of "ZEnum [''asc'', ''desc'']" opaque_rejects "VString ''asc''"]
  by simp

section \<open>Properties of the populate fields\<close>

text \<open>
  The examples of claim C4: for \<^verbatim>\<open>{author: {id, name}, title}\<close> the populate fields
  are exactly \<^verbatim>\<open>author\<close>, and for \<^verbatim>\<open>{title}\<close> there are none.
\<close>

lemma populate_examples:
  "QueryPopulateFields subtype
     (ZObject [(KStr ''author'', ZObject [(KStr ''id'', ZString), (KStr ''name'', ZString)] Strip),
               (KStr ''title'', ZString)] Strip) =
     Some (ZArray (ZLiteral [LitString ''author'']))"
  "QueryPopulateFields subtype (ZObject [(KStr ''title'', ZString)] Strip) =
     Some (ZArray (ZLiteral []))"
  by (simp_all add: QueryPopulateFields_def QueryPopulateFieldFilter_def has_id_def keyof_def
      NonNeverKeys_def)

text \<open>
  A field that unwraps to an Object is selected exactly when the Object has a field
  \<^verbatim>\<open>id\<close>; a field that unwraps to neither an Object nor a Union is not
  selected.
\<close>

lemma populate_object_field:
  "UnwrapZodType F = ZObject S cfg' \<Longrightarrow>
   QueryPopulateFieldFilter subtype (ZObject [(K, F)] cfg) =
     Some [(K, if has_id S then Some K else None)]"
  by (simp add: QueryPopulateFieldFilter_def)

lemma populate_other_field:
  "\<not> isZodObject (UnwrapZodType F) \<Longrightarrow> \<forall>U. UnwrapZodType F \<noteq> ZUnion U \<Longrightarrow>
   QueryPopulateFieldFilter subtype (ZObject [(K, F)] cfg) = Some [(K, None)]"
  by (cases "UnwrapZodType F") (simp_all add: QueryPopulateFieldFilter_def)

lemma width_subtype_keys: "width_subtype S S' \<Longrightarrow> set (keyof S') \<subseteq> set (keyof S)"
proof
  fix K assume sub: "width_subtype S S'" and "K \<in> set (keyof S')"
  then obtain F where "(K, F) \<in> set S'" by (auto simp: keyof_def)
  with sub have "map_of S K = Some F" by (auto simp: width_subtype_def list_all_iff)
  then show "K \<in> set (keyof S)" by (force simp: keyof_def dest: map_of_SomeD)
qed

text \<open>
  Claim C4. A field whose type is a union of two Objects, only one of which has a
  field \<^verbatim>\<open>id\<close>, is selected as a populate field, under every subtype relation in
  which a subtype has all the keys of its supertype.
\<close>

theorem populate_union_one_id:
  assumes "\<And>S S'. subtype S S' \<Longrightarrow> set (keyof S') \<subseteq> set (keyof S)"
  shows "QueryPopulateFields subtype
           (ZObject [(KStr ''rel'', ZUnion [ZObject [(KStr ''id'', ZString)] Strip,
                                       ZObject [(KStr ''name'', ZString)] Strip]),
                     (KStr ''title'', ZString)] Strip) =
         Some (ZArray (ZLiteral [LitString ''rel'']))"
proof -
  have "\<not> subtype [(KStr ''id'', ZString)] [(KStr ''name'', ZString)]"
    using assms [of "[(KStr ''id'', ZString)]" "[(KStr ''name'', ZString)]"] by (auto simp: keyof_def)
  moreover have "\<not> subtype [(KStr ''name'', ZString)] [(KStr ''id'', ZString)]"
    using assms [of "[(KStr ''name'', ZString)]" "[(KStr ''id'', ZString)]"] by (auto simp: keyof_def)
  ultimately show ?thesis
    by (simp add: QueryPopulateFields_def QueryPopulateFieldFilter_def infer_SUnion_def
        removeSubtypes_def has_id_def keyof_def NonNeverKeys_def)
qed

theorem populate_union_one_id_witness:
  "QueryPopulateFields width_subtype
     (ZObject [(KStr ''rel'', ZUnion [ZObject [(KStr ''id'', ZString)] Strip,
                                 ZObject [(KStr ''name'', ZString)] Strip]),
               (KStr ''title'', ZString)] Strip) =
   Some (ZArray (ZLiteral [LitString ''rel'']))"
  using populate_union_one_id [of width_subtype] width_subtype_keys by blast

section \<open>Properties of combining\<close>

lemma map_of_Extend:
  "map_of (Extend A B) K = (case map_of B K of Some F \<Rightarrow> Some F | None \<Rightarrow> map_of A K)"
proof (cases "map_of B K")
  case None
  then have "K \<notin> set (keyof B)" by (simp add: keyof_def map_of_eq_None_iff)
  then have "map_of (filter (\<lambda>(K, F). K \<notin> set (keyof B)) A) K = map_of A K"
    by (induction A) auto
  with None show ?thesis by (simp add: Extend_def map_add_def split: option.splits)
next
  case (Some F)
  then have "K \<in> set (keyof B)" by (force simp: keyof_def dest: map_of_SomeD)
  then have "map_of (filter (\<lambda>(K, F). K \<notin> set (keyof B)) A) K = None"
    by (induction A) auto
  with Some show ?thesis by (simp add: Extend_def map_add_def)
qed

lemma keyof_Extend: "set (keyof (Extend A B)) = set (keyof A) \<union> set (keyof B)"
  by (force simp: Extend_def keyof_def)

lemma distinct_Extend:
  "distinct (keyof A) \<Longrightarrow> distinct (keyof B) \<Longrightarrow> distinct (keyof (Extend A B))"
  by (force simp: Extend_def keyof_def distinct_map_filter)

text \<open>
  The example of claim C7: picking \<^verbatim>\<open>name\<close> from \<^verbatim>\<open>{name: string, age: number}\<close>
  and combining the result with \<^verbatim>\<open>{location: string}\<close> gives the object schema
  with exactly the fields \<^verbatim>\<open>name\<close> and \<^verbatim>\<open>location\<close>.
\<close>

lemma combine_example:
  "PickZodObjectKeys (ZObject [(KStr ''name'', ZString), (KStr ''age'', ZNumber)] Strip) [KStr ''name''] False =
     Some (ZObject [(KStr ''name'', ZString)] Strip) \<and>
   CombineZodObjects (ZObject [(KStr ''name'', ZString)] Strip)
       (ZObject [(KStr ''location'', ZString)] Strip) =
     Some (ZObject [(KStr ''name'', ZString), (KStr ''location'', ZString)] Strip)"
  by (simp add: PickZodObjectKeys_def CombineZodObjects_def Extend_def keyof_def)

text \<open>
  Claim C7. Combining two object schemas \<open>A\<close> and \<open>B\<close> yields an object schema whose
  keys are those of \<open>A\<close> together with those of \<open>B\<close>, in which a key of \<open>B\<close> has the
  field schema it has in \<open>B\<close> (with its wrappers, such as Optional) and any other key
  the one it has in \<open>A\<close>, and whose configuration is that of \<open>B\<close>.
\<close>

theorem combine_right_wins:
  "\<exists>S. CombineZodObjects (ZObject A ca) (ZObject B cb) = Some (ZObject S cb) \<and>
       set (keyof S) = set (keyof A) \<union> set (keyof B) \<and>
       (\<forall>K. map_of S K = (case map_of B K of Some F \<Rightarrow> Some F | None \<Rightarrow> map_of A K))"
  by (simp add: CombineZodObjects_def keyof_Extend map_of_Extend)

section \<open>Properties of the router\<close>

text \<open>
  Claim C10. When the metadata given to \<^verbatim>\<open>createCrudRouter\<close> has a key
  \<^verbatim>\<open>authentication\<close>, the router is built with that value under the key, whatever
  the authentication parameter is; otherwise it is built with the authentication
  parameter, which is true when omitted.
\<close>

theorem metadata_overrides_authentication:
  "(metadata p = Some m \<and> m ''authentication'' = Some v \<longrightarrow>
      router_metadata (createCrudRouter p) ''authentication'' = Some v) \<and>
   ((metadata p = None \<or> (\<exists>m. metadata p = Some m \<and> m ''authentication'' = None)) \<longrightarrow>
      router_metadata (createCrudRouter p) ''authentication'' =
        Some (VBoolean (case authentication p of None \<Rightarrow> True | Some a \<Rightarrow> a)))"
  by (auto simp: createCrudRouter_def Let_def map_add_def split: option.splits)

theorem metadata_overrides_authentication_witness:
  "router_metadata (createCrudRouter
     \<lparr>name = ''user'', entity = ZObject [(KStr ''id'', ZString)] Strip,
      create = ZObject [] Strip, update = ZObject [] Strip, filterBy = None, routes = None,
      authentication = Some True,
      metadata = Some [''authentication'' \<mapsto> VBoolean False]\<rparr>) ''authentication'' =
     Some (VBoolean False) \<and>
   router_metadata (createCrudRouter
     \<lparr>name = ''user'', entity = ZObject [(KStr ''id'', ZString)] Strip,
      create = ZObject [] Strip, update = ZObject [] Strip, filterBy = None, routes = None,
      authentication = None, metadata = None\<rparr>) ''authentication'' =
     Some (VBoolean True)"
  using metadata_overrides_authentication [of
      "\<lparr>name = ''user'', entity = ZObject [(KStr ''id'', ZString)] Strip,
        create = ZObject [] Strip, update = ZObject [] Strip, filterBy = None, routes = None,
        authentication = Some True,
        metadata = Some [''authentication'' \<mapsto> VBoolean False]\<rparr>"
      "[''authentication'' \<mapsto> VBoolean False]" "VBoolean False"]
    metadata_overrides_authentication [of
      "\<lparr>name = ''user'', entity = ZObject [(KStr ''id'', ZString)] Strip,
        create = ZObject [] Strip, update = ZObject [] Strip, filterBy = None, routes = None,
        authentication = None, metadata = None\<rparr>" Map.empty VNull]
  by simp

end
